theory Spec2Isabelle
  imports Complex_Main
begin

section \<open>Point processes: kernel matrices and permanental sampling\<close>

text \<open>
  A model of \<^verbatim>\<open>strawberryfields/apps/points.py\<close>: the two functions \<^verbatim>\<open>rbf_kernel\<close>
  and \<^verbatim>\<open>sample\<close>.

  Numbers. A finite float64 is modelled by the real number it stands for. Of the ways in
  which float64 differs from the reals the model keeps the range: a result whose
  magnitude reaches \<open>2 ^ 1024\<close> is an infinity and a result whose magnitude is at most
  \<open>1 / 2 ^ 1075\<close> is zero (\<open>to_float64\<close>); Python's own float power raises
  \<^verbatim>\<open>OverflowError\<close> where numpy would return an infinity (\<open>py_float_square\<close>); and a
  division by zero gives \<^verbatim>\<open>nan\<close> or an infinity. Rounding inside the range is not
  modelled: a result that stays inside the range is the exact real number. Between
  \<open>1 / 2 ^ 1075\<close> and \<open>1 / 2 ^ 1022\<close> float64 has fewer than 53 significant bits, so
  statements about exact values are made for the normal range (\<open>f64_normal\<close>), where the
  exact value and the float64 differ by a relative error of \<open>1 / 2 ^ 53\<close> at most.
\<close>

subsection \<open>Values, arrays and errors\<close>

datatype npfloat = Fin real | PosInf | NegInf | NaN

text \<open>
  A numpy array, as far as this module looks at it: a one-dimensional array, or a
  two-dimensional array given by its number of columns and its rows, so that
  \<open>Array2 D rows\<close> has shape \<open>(length rows, D)\<close> and the shape \<open>(0, D)\<close> is \<open>Array2 D []\<close>.
  Every row of a two-dimensional array has \<open>D\<close> entries (\<open>well_shaped\<close>).
\<close>

datatype 'a ndarray = Array1 "'a list" | Array2 nat "'a list list"


fun shape0 :: "'a ndarray \<Rightarrow> nat" where
  "shape0 (Array1 xs) = length xs"
| "shape0 (Array2 D rows) = length rows"

text \<open>
  The exceptions that can leave \<^verbatim>\<open>rbf_kernel\<close>: the \<^verbatim>\<open>ValueError\<close> of \<^verbatim>\<open>cdist\<close> and the
  \<^verbatim>\<open>OverflowError\<close> of Python's float power, each with its message (Python prints the
  latter with the words in quotes).
\<close>

datatype error = ValueError string | OverflowError string

subsection \<open>The range of float64\<close>

text \<open>
  \<open>f64_overflow\<close> is the least magnitude that float64 cannot hold (the largest float64 is
  just below it), \<open>f64_underflow\<close> is half the smallest positive float64, \<open>1 / 2 ^ 1074\<close>:
  what is not above it is rounded to zero. \<open>f64_min_normal\<close> is the smallest positive
  float64 with full precision.
\<close>

definition f64_overflow :: real where
  "f64_overflow = 2 ^ 1024"

definition f64_underflow :: real where
  "f64_underflow = 1 / 2 ^ 1075"

definition f64_min_normal :: real where
  "f64_min_normal = 1 / 2 ^ 1022"


definition to_float64 :: "real \<Rightarrow> npfloat" where
  "to_float64 v =
     (if f64_overflow \<le> v then PosInf
      else if v \<le> - f64_overflow then NegInf
      else if \<bar>v\<bar> \<le> f64_underflow then Fin 0
      else Fin v)"

text \<open>
  The comparison \<^verbatim>\<open>==\<close> of two float64: \<^verbatim>\<open>nan\<close> is equal to nothing, itself included.
\<close>

fun np_equal :: "npfloat \<Rightarrow> npfloat \<Rightarrow> bool" where
  "np_equal (Fin a) (Fin b) = (a = b)"
| "np_equal PosInf PosInf = True"
| "np_equal NegInf NegInf = True"
| "np_equal a b = False"

subsection \<open>The library routines that \<^verbatim>\<open>rbf_kernel\<close> calls\<close>

text \<open>
  \<^verbatim>\<open>scipy.spatial.distance.cdist(XA, XB)\<close> with its default metric. The routine belongs
  to scipy and not to this repository; it is modelled by its documented behaviour, which
  is also what the module's docstring and the specification rely on (``the Euclidean norm
  is used to measure distance''): both arguments must be two-dimensional with the same
  number of columns, otherwise a \<^verbatim>\<open>ValueError\<close> is raised, and entry \<open>(i, j)\<close> of the result
  is the Euclidean distance between row \<open>i\<close> of \<^verbatim>\<open>XA\<close> and row \<open>j\<close> of \<^verbatim>\<open>XB\<close>. The model
  returns the exact distance. Where the sum of the squares reaches \<open>2 ^ 1024\<close> scipy
  returns an infinity instead; \<^verbatim>\<open>rbf_kernel\<close> squares the distance next, and the square of
  the exact distance is then the same infinity.
\<close>

definition euclidean :: "real list \<Rightarrow> real list \<Rightarrow> real" where
  "euclidean u v = sqrt (sum_list (map (\<lambda>(a, b). (a - b)\<^sup>2) (zip u v)))"

fun cdist :: "real ndarray \<Rightarrow> real ndarray \<Rightarrow> error + real ndarray" where
  "cdist (Array1 xs) XB = Inl (ValueError ''XA must be a 2-dimensional array.'')"
| "cdist (Array2 D XA) (Array1 ys) = Inl (ValueError ''XB must be a 2-dimensional array.'')"
| "cdist (Array2 D XA) (Array2 D' XB) =
     (if D \<noteq> D'
      then Inl (ValueError ''XA and XB must have the same number of columns (i.e. feature dimension.)'')
      else Inr (Array2 (length XB) (map (\<lambda>u. map (\<lambda>v. euclidean u v) XB) XA)))"

text \<open>
  \<^verbatim>\<open>sigma ** 2\<close> for a Python float \<^verbatim>\<open>sigma\<close>: Python raises \<^verbatim>\<open>OverflowError\<close> when the
  square is too large for a float64 (for \<open>\<bar>sigma\<bar>\<close> from \<open>2 ^ 512\<close>, about \<open>1.34e154\<close>, on),
  and returns \<open>0.0\<close> without any error when it is too small (for \<open>\<bar>sigma\<bar>\<close> below about
  \<open>1.5e-162\<close>).
\<close>

definition py_float_square :: "real \<Rightarrow> error + real" where
  "py_float_square x =
     (if f64_overflow \<le> x\<^sup>2 then Inl (OverflowError ''(34, Numerical result out of range)'')
      else if x\<^sup>2 \<le> f64_underflow then Inr 0
      else Inr (x\<^sup>2))"

text \<open>
  numpy's operations on one entry of an array: \<^verbatim>\<open>** 2\<close>, unary minus, the division by a
  finite Python float (here \<open>2\<close> and \<^verbatim>\<open>sigma ** 2\<close>, so a zero divisor is \<open>+0.0\<close>) and
  \<^verbatim>\<open>np.exp\<close>. numpy warns about an overflow or a division by zero and does not raise.
  \<^verbatim>\<open>np.exp\<close> returns \<open>0.0\<close> for an argument below about \<open>- 745.13\<close>, where the exponential
  is no longer above \<open>f64_underflow\<close>.
\<close>

fun np_square :: "npfloat \<Rightarrow> npfloat" where
  "np_square (Fin x) = to_float64 (x\<^sup>2)"
| "np_square PosInf = PosInf"
| "np_square NegInf = PosInf"
| "np_square NaN = NaN"

fun np_negative :: "npfloat \<Rightarrow> npfloat" where
  "np_negative (Fin x) = Fin (- x)"
| "np_negative PosInf = NegInf"
| "np_negative NegInf = PosInf"
| "np_negative NaN = NaN"

fun np_divide :: "npfloat \<Rightarrow> real \<Rightarrow> npfloat" where
  "np_divide (Fin x) s =
     (if s = 0 then (if x = 0 then NaN else if x < 0 then NegInf else PosInf)
      else to_float64 (x / s))"
| "np_divide PosInf s = (if s < 0 then NegInf else PosInf)"
| "np_divide NegInf s = (if s < 0 then PosInf else NegInf)"
| "np_divide NaN s = NaN"

fun np_exp :: "npfloat \<Rightarrow> npfloat" where
  "np_exp (Fin x) = to_float64 (exp x)"
| "np_exp PosInf = PosInf"
| "np_exp NegInf = Fin 0"
| "np_exp NaN = NaN"

subsection \<open>\<^verbatim>\<open>rbf_kernel\<close>\<close>

text \<open>
  \<^verbatim>\<open>return np.exp(-(scipy.spatial.distance.cdist(R, R)) ** 2 / 2 / sigma ** 2)\<close>

  Python reads the expression as \<open>((-(d ** 2)) / 2) / (sigma ** 2)\<close>, entry by entry, and
  evaluates \<^verbatim>\<open>cdist(R, R)\<close> before \<^verbatim>\<open>sigma ** 2\<close>, so that an exception of \<^verbatim>\<open>cdist\<close> comes
  first; \<^verbatim>\<open>sigma ** 2\<close> is evaluated, and can raise, whatever the array holds.
  \<open>kernel_entry s2 d\<close> is the entry for a distance \<open>d\<close>, given the value \<open>s2\<close> of
  \<^verbatim>\<open>sigma ** 2\<close>.
\<close>

definition kernel_entry :: "real \<Rightarrow> real \<Rightarrow> npfloat" where
  "kernel_entry s2 d = np_exp (np_divide (np_divide (np_negative (np_square (Fin d))) 2) s2)"

definition rbf_kernel :: "real ndarray \<Rightarrow> real \<Rightarrow> error + npfloat ndarray" where
  "rbf_kernel R sigma =
     (case cdist R R of
        Inl e \<Rightarrow> Inl e
      | Inr M \<Rightarrow>
          (case py_float_square sigma of
             Inl e \<Rightarrow> Inl e
           | Inr s2 \<Rightarrow> Inr (map_ndarray (kernel_entry s2) M)))"

text \<open>
  The values that the argument of \<^verbatim>\<open>np.exp\<close> can take here: a finite number that is not
  positive, or minus infinity. Used in the proofs only.
\<close>

fun nonpositive :: "npfloat \<Rightarrow> bool" where
  "nonpositive (Fin x) = (x \<le> 0)"
| "nonpositive NegInf = True"
| "nonpositive a = False"

subsection \<open>\<^verbatim>\<open>sample\<close>\<close>

text \<open>
  \<^verbatim>\<open>ls, O = rescale_adjacency_matrix_thermal(K, n_mean)\<close>

  \<^verbatim>\<open>return np.array(generate_thermal_samples(ls, O, num_samples=n_samples)).tolist()\<close>

  The two routines come from the library \<^verbatim>\<open>thewalrus\<close>; they are parameters of the model,
  which says nothing about what they compute. The rescaling routine returns the pair of
  sampler parameters or raises; \<^verbatim>\<open>sample\<close> hands the pair on without looking at it, so the
  two components have arbitrary types (\<open>O'\<close> stands for the source's \<^verbatim>\<open>O\<close>). The generator
  draws from numpy's global random state, which is threaded through explicitly: it takes
  the state and returns the new one, together with the list of samples or the exception
  it raised. The kernel and the mean count are floats of any kind, \<^verbatim>\<open>n_samples\<close> is a
  Python integer.

  The generator returns one count per mode for every sample, so its samples have one
  common length; \<^verbatim>\<open>np.array(...).tolist()\<close> turns such a list into a two-dimensional
  integer array and back into nested lists of Python integers, with the same entries in
  the same places.
\<close>

definition np_array_tolist :: "int list list \<Rightarrow> int list list" where
  "np_array_tolist raw = raw"

definition sample ::
  "(npfloat ndarray \<Rightarrow> npfloat \<Rightarrow> 'e + 'p \<times> 'q) \<Rightarrow>
   ('p \<Rightarrow> 'q \<Rightarrow> int \<Rightarrow> 'g \<Rightarrow> ('e + int list list) \<times> 'g) \<Rightarrow>
   npfloat ndarray \<Rightarrow> npfloat \<Rightarrow> int \<Rightarrow> 'g \<Rightarrow> ('e + int list list) \<times> 'g" where
  "sample rescale_adjacency_matrix_thermal generate_thermal_samples K n_mean n_samples g =
     (case rescale_adjacency_matrix_thermal K n_mean of
        Inl e \<Rightarrow> (Inl e, g)
      | Inr (ls, O') \<Rightarrow>
          (case generate_thermal_samples ls O' n_samples g of
             (Inl e, g') \<Rightarrow> (Inl e, g')
           | (Inr raw, g') \<Rightarrow> (Inr (np_array_tolist raw), g')))"

text \<open>
  Modelled from the spec: the number and the length of the samples that the generator of
  \<^verbatim>\<open>thewalrus\<close>, whose code is not part of this repository, returns. The specification
  describes the generator as one that ``generates a requested number of random
  integer-count samples'' from the parameters that the rescaling routine produced, a
  batch as a collection of samples of ``length equal to a requested sample count'', and a
  sample as a sequence with one entry per point, whose ``length equals the number of
  points in the kernel''. The requested count is taken not to be negative.
\<close>

definition batch_shape_spec ::
  "(npfloat ndarray \<Rightarrow> npfloat \<Rightarrow> 'e + 'p \<times> 'q) \<Rightarrow>
   ('p \<Rightarrow> 'q \<Rightarrow> int \<Rightarrow> 'g \<Rightarrow> ('e + int list list) \<times> 'g) \<Rightarrow> bool" where
  "batch_shape_spec rescale generate \<longleftrightarrow>
     (\<forall>K n_mean ls O' n g raw g'.
        rescale K n_mean = Inr (ls, O') \<and> 0 \<le> n \<and> generate ls O' n g = (Inr raw, g') \<longrightarrow>
        length raw = nat n \<and> list_all (\<lambda>s. length s = shape0 K) raw)"

text \<open>
  Modelled from the spec: the entries of the samples that the generator of \<^verbatim>\<open>thewalrus\<close>
  returns. The specification describes a sample as ``a finite sequence of non-negative
  integers''.
\<close>

definition counts_spec ::
  "('p \<Rightarrow> 'q \<Rightarrow> int \<Rightarrow> 'g \<Rightarrow> ('e + int list list) \<times> 'g) \<Rightarrow> bool" where
  "counts_spec generate \<longleftrightarrow>
     (\<forall>ls O' n g raw g'.
        generate ls O' n g = (Inr raw, g') \<longrightarrow> list_all (list_all (\<lambda>x. 0 \<le> x)) raw)"

text \<open>
  A small pair of routines of this kind, on which the statements about \<^verbatim>\<open>sample\<close> are
  instantiated: the rescaling rejects a mean count that is negative or not finite and
  otherwise returns the number of points and the mean; the generator rejects a negative
  number of samples and otherwise returns that many samples, all entries equal to the
  current state, a counter that it increments.
\<close>

definition example_rescale :: "npfloat ndarray \<Rightarrow> npfloat \<Rightarrow> error + nat \<times> real" where
  "example_rescale K n_mean =
     (case n_mean of
        Fin m \<Rightarrow> if m < 0 then Inl (ValueError ''negative mean'') else Inr (shape0 K, m)
      | _ \<Rightarrow> Inl (ValueError ''mean is not finite''))"

definition example_generate ::
  "nat \<Rightarrow> real \<Rightarrow> int \<Rightarrow> nat \<Rightarrow> (error + int list list) \<times> nat" where
  "example_generate N m n g =
     (if n < 0 then (Inl (ValueError ''negative number of samples''), g)
      else (Inr (replicate (nat n) (replicate N (int g))), Suc g))"

section \<open>Properties of \<^verbatim>\<open>rbf_kernel\<close>\<close>

subsection \<open>The range of float64\<close>

lemma f64_overflow_gt_one: "1 < f64_overflow"
  unfolding f64_overflow_def by (rule one_less_power) simp_all

lemma f64_underflow_pos: "0 < f64_underflow"
  unfolding f64_underflow_def by simp

lemma f64_underflow_lt_one: "f64_underflow < 1"
proof -
  have "(1 :: real) < 2 ^ 1075" by (rule one_less_power) simp_all
  then show ?thesis unfolding f64_underflow_def by (simp only: divide_less_eq_1_pos zero_less_power zero_less_numeral)
qed

lemma f64_overflow_big: "2 ^ 20 \<le> f64_overflow"
  unfolding f64_overflow_def by (rule power_increasing) simp_all

lemma inv_pow_mono: "m \<le> n \<Longrightarrow> 1 / (2 :: real) ^ n \<le> 1 / 2 ^ m"
  by (simp add: frac_le power_increasing)

lemma f64_min_normal_small: "f64_min_normal \<le> 1 / 2 ^ 20"
  unfolding f64_min_normal_def by (rule inv_pow_mono) simp

lemma f64_underflow_lt_min_normal: "2 * f64_underflow < f64_min_normal"
proof -
  have "2 * (1 / (2 :: real) ^ 1075) = 1 / 2 ^ 1074"
  proof -
    have "(2 :: real) ^ 1075 = 2 * 2 ^ 1074"
      by (simp only: power_Suc [symmetric]) simp
    then show ?thesis by (simp only: )
  qed
  moreover have "1 / (2 :: real) ^ 1074 < 1 / 2 ^ 1022"
    by (intro divide_strict_left_mono power_strict_increasing mult_pos_pos zero_less_power) simp_all
  ultimately show ?thesis by (simp only: f64_underflow_def f64_min_normal_def)
qed

lemma f64_underflow_lt_small: "f64_underflow < 1 / 2 ^ 20"
  using f64_underflow_lt_min_normal f64_min_normal_small f64_underflow_pos by linarith

lemma moderate_in_range:
  assumes "1 / 2 ^ 20 \<le> v" and "v < 2 ^ 20"
  shows "2 * f64_underflow < v" and "v < f64_overflow" and "f64_min_normal \<le> v"
proof -
  show "f64_min_normal \<le> v" using f64_min_normal_small assms(1) by linarith
  then show "2 * f64_underflow < v" using f64_underflow_lt_min_normal by linarith
  show "v < f64_overflow" using f64_overflow_big assms(2) by linarith
qed


lemma moderate_square_range:
  assumes "1 / 2 ^ 20 \<le> sigma\<^sup>2" and "sigma\<^sup>2 < 2 ^ 20"
  shows "f64_underflow < sigma\<^sup>2" and "sigma\<^sup>2 < f64_overflow"
  using assms f64_underflow_lt_small f64_overflow_big by linarith+


lemma range_square_pos: "f64_underflow < sigma\<^sup>2 \<Longrightarrow> 0 < sigma\<^sup>2"
  using f64_underflow_pos by linarith

lemma pow600_overflow: "f64_overflow \<le> ((2 :: real) ^ 600)\<^sup>2"
proof -
  have "((2 :: real) ^ 600)\<^sup>2 = 2 ^ 1200"
    by (simp only: power_mult [symmetric]) simp
  moreover have "(2 :: real) ^ 1024 \<le> 2 ^ 1200"
    by (rule power_increasing) simp_all
  ultimately show ?thesis by (simp only: f64_overflow_def)
qed

lemma pow600_underflow: "(1 / (2 :: real) ^ 600)\<^sup>2 \<le> f64_underflow"
proof -
  have "(1 / (2 :: real) ^ 600)\<^sup>2 = 1 / 2 ^ 1200"
    by (simp only: power_divide power_one power_mult [symmetric]) simp
  moreover have "(2 :: real) ^ 1075 \<le> 2 ^ 1200"
    by (rule power_increasing) simp_all
  then have "1 / (2 :: real) ^ 1200 \<le> 1 / 2 ^ 1075"
    by (intro divide_left_mono) (simp_all only: zero_less_power zero_less_numeral zero_le_one mult_pos_pos)
  ultimately show ?thesis by (simp only: f64_underflow_def)
qed

subsection \<open>Bounds on the exponential\<close>

lemma pow2_double: "a + 1 \<le> b + b \<Longrightarrow> (2 :: real) ^ a * 2 \<le> 2 ^ b * 2 ^ b"
proof -
  assume "a + 1 \<le> b + b"
  then have "(2 :: real) ^ (a + 1) \<le> 2 ^ (b + b)"
    by (intro power_increasing) simp_all
  then show ?thesis by (simp add: power_add)
qed

lemma exp_neg_overflow:
  assumes "f64_overflow \<le> q"
  shows "exp (- q) \<le> f64_underflow"
proof -
  have q: "2 ^ 1024 \<le> q" using assms by (simp only: f64_overflow_def)
  have one: "(1 :: real) \<le> 2 ^ 1024" by (rule one_le_power) simp
  have q0: "0 \<le> q" using q one by linarith
  have "(2 :: real) ^ 1075 * 2 \<le> 2 ^ 1024 * 2 ^ 1024"
    by (rule pow2_double) simp
  also have "\<dots> \<le> q * q"
    using q by (intro mult_mono) simp_all
  finally have "(2 :: real) ^ 1075 \<le> q\<^sup>2 / 2"
    by (simp only: power2_eq_square)
  also have "\<dots> \<le> exp q"
    using exp_lower_Taylor_quadratic [OF q0] q0 by linarith
  finally have "(2 :: real) ^ 1075 \<le> exp q" .
  then have "1 / exp q \<le> 1 / (2 :: real) ^ 1075"
    by (intro divide_left_mono mult_pos_pos) (simp_all only: zero_less_power zero_less_numeral zero_le_one exp_gt_zero)
  then show ?thesis by (simp only: f64_underflow_def exp_minus inverse_eq_divide)
qed

lemma pow3_le_pow2: "(3 :: real) ^ (5 * n) \<le> 2 ^ (8 * n)"
proof -
  have "(3 :: real) ^ 5 \<le> 2 ^ 8" by simp
  then have "((3 :: real) ^ 5) ^ n \<le> (2 ^ 8) ^ n"
    by (intro power_mono) simp_all
  then show ?thesis by (simp only: power_mult)
qed

lemma exp_600_bound: "exp (600 :: real) < 2 ^ 1075"
proof -
  have "exp (600 :: real) = exp 1 ^ 600"
    using exp_of_nat_mult [of 600 "1 :: real"] by simp
  also have "\<dots> \<le> 3 ^ 600"
    by (intro power_mono exp_le) simp
  also have "(3 :: real) ^ 600 \<le> 2 ^ 960"
    using pow3_le_pow2 [of 120] by simp
  also have "(2 :: real) ^ 960 < 2 ^ 1075"
    by (rule power_strict_increasing) simp_all
  finally show ?thesis .
qed

lemma exp_gt_underflow:
  assumes "q \<le> 600"
  shows "f64_underflow < exp (- q)"
proof -
  have "exp q \<le> exp 600" using assms by simp
  then have "exp q < 2 ^ 1075" using exp_600_bound by linarith
  then have "1 / (2 :: real) ^ 1075 < 1 / exp q"
    by (intro divide_strict_left_mono mult_pos_pos) (simp_all only: zero_less_power zero_less_numeral zero_less_one exp_gt_zero)
  then show ?thesis by (simp only: f64_underflow_def exp_minus inverse_eq_divide)
qed





lemma exp_minus_one_approx: "\<bar>exp (- 1 :: real) - 367879 / 1000000\<bar> < 5 / 10 ^ 7"
proof -
  obtain t :: real where t: "\<bar>t\<bar> \<le> \<bar>- 1 :: real\<bar>"
    and e: "exp (- 1 :: real) = (\<Sum>m<12. ((- 1) ^ m) / fact m) + (exp t / fact 12) * (- 1) ^ 12"
    using Maclaurin_exp_le [of "- 1 :: real" 12] by blast
  have "t \<le> 1" using t by simp
  then have "exp t \<le> exp 1" by simp
  also have "\<dots> \<le> 3" by (rule exp_le)
  finally have up: "exp t \<le> 3" .
  have lo: "0 \<le> exp t" by simp
  have s: "(\<Sum>m<12. ((- 1 :: real) ^ m) / fact m) = 1468457 / 3991680"
    by (simp add: eval_nat_numeral)
  have f: "(fact 12 :: real) = 479001600" by (simp add: eval_nat_numeral)
  have g: "\<bar>1468457 / 3991680 + r / 479001600 * (- 1) ^ 12 - 367879 / 1000000\<bar> < 5 / 10 ^ 7"
    if "0 \<le> r" "r \<le> 3" for r :: real
    using that by (simp add: abs_less_iff)
  show ?thesis unfolding e s f using g [OF lo up] .
qed

lemma exp_minus_half_approx: "\<bar>exp (- (1 / 2) :: real) - 606531 / 1000000\<bar> < 5 / 10 ^ 7"
proof -
  obtain t :: real where t: "\<bar>t\<bar> \<le> \<bar>- (1 / 2) :: real\<bar>"
    and e: "exp (- (1 / 2) :: real) =
              (\<Sum>m<9. ((- (1 / 2)) ^ m) / fact m) + (exp t / fact 9) * (- (1 / 2)) ^ 9"
    using Maclaurin_exp_le [of "- (1 / 2) :: real" 9] by blast
  have "t \<le> 1" using t by simp
  then have "exp t \<le> exp 1" by simp
  also have "\<dots> \<le> 3" by (rule exp_le)
  finally have up: "exp t \<le> 3" .
  have lo: "0 \<le> exp t" by simp
  have s: "(\<Sum>m<9. ((- (1 / 2) :: real) ^ m) / fact m) = 6260561 / 10321920"
    by (simp add: eval_nat_numeral)
  have f: "(fact 9 :: real) = 362880" by (simp add: eval_nat_numeral)
  have p: "(- (1 / 2) :: real) ^ 9 = - (1 / 512)" by (simp add: eval_nat_numeral)
  have g: "\<bar>6260561 / 10321920 + r / 362880 * - (1 / 512) - 606531 / 1000000\<bar> < 5 / 10 ^ 7"
    if "0 \<le> r" "r \<le> 3" for r :: real
    using that by (simp add: abs_less_iff)
  show ?thesis unfolding e s f p using g [OF lo up] .
qed

subsection \<open>The operations on one entry\<close>

lemma to_float64_zero: "to_float64 0 = Fin 0"
  using f64_overflow_gt_one f64_underflow_pos by (simp add: to_float64_def)

lemma to_float64_one: "to_float64 1 = Fin 1"
  using f64_overflow_gt_one f64_underflow_lt_one by (simp add: to_float64_def)

lemma to_float64_in_range:
  "f64_underflow < \<bar>v\<bar> \<Longrightarrow> \<bar>v\<bar> < f64_overflow \<Longrightarrow> to_float64 v = Fin v"
  by (auto simp: to_float64_def)


lemma to_float64_nonpos: "v \<le> 0 \<Longrightarrow> nonpositive (to_float64 v)"
  using f64_overflow_gt_one by (auto simp: to_float64_def)


lemma to_float64_exp:
  assumes "y \<le> 0"
  shows "to_float64 (exp y) = Fin (if exp y \<le> f64_underflow then 0 else exp y)"
proof -
  have le: "exp y \<le> 1" using assms by simp
  have pos: "0 < exp y" by simp
  have a: "\<not> f64_overflow \<le> exp y"
    using le f64_overflow_gt_one by linarith
  have b: "\<not> exp y \<le> - f64_overflow"
    using pos f64_overflow_gt_one by linarith
  show ?thesis unfolding to_float64_def using a b by auto
qed

lemma py_float_square_range:
  "f64_underflow < x\<^sup>2 \<Longrightarrow> x\<^sup>2 < f64_overflow \<Longrightarrow> py_float_square x = Inr (x\<^sup>2)"
  by (simp add: py_float_square_def)

lemma py_float_square_overflow:
  "f64_overflow \<le> x\<^sup>2 \<Longrightarrow>
     py_float_square x = Inl (OverflowError ''(34, Numerical result out of range)'')"
  by (simp add: py_float_square_def)

lemma py_float_square_underflow:
  "x\<^sup>2 \<le> f64_underflow \<Longrightarrow> py_float_square x = Inr 0"
  using f64_overflow_gt_one f64_underflow_lt_one by (simp add: py_float_square_def)

lemma py_float_square_no_overflow:
  "x\<^sup>2 < f64_overflow \<Longrightarrow> \<exists>s2. py_float_square x = Inr s2"
  by (simp add: py_float_square_def)

lemma py_float_square_minus: "py_float_square (- x) = py_float_square x"
  by (simp add: py_float_square_def)

lemma py_float_square_abs: "py_float_square \<bar>x\<bar> = py_float_square x"
  by (simp add: py_float_square_def)

lemma nonpositive_neg_square: "nonpositive (np_negative (np_square (Fin d)))"
proof -
  have "\<not> d\<^sup>2 \<le> - f64_overflow"
    using f64_overflow_gt_one zero_le_power2 [of d] by linarith
  then show ?thesis by (auto simp: to_float64_def)
qed

lemma nonpositive_divide: "nonpositive a \<Longrightarrow> 0 < s \<Longrightarrow> nonpositive (np_divide a s)"
  by (cases a) (auto simp: divide_nonpos_pos intro: to_float64_nonpos)

lemma np_exp_unit: "nonpositive a \<Longrightarrow> \<exists>x. np_exp a = Fin x \<and> 0 \<le> x \<and> x \<le> 1"
proof (cases a)
  case (Fin y)
  assume "nonpositive a"
  with Fin have le: "exp y \<le> 1" by simp
  have pos: "0 < exp y" by simp
  have "\<not> f64_overflow \<le> exp y"
    using le f64_overflow_gt_one by linarith
  moreover have "\<not> exp y \<le> - f64_overflow"
    using pos f64_overflow_gt_one by linarith
  ultimately show ?thesis using Fin le by (auto simp: to_float64_def)
qed auto

lemma kernel_entry_unit: "0 < s2 \<Longrightarrow> \<exists>x. kernel_entry s2 d = Fin x \<and> 0 \<le> x \<and> x \<le> 1"
  unfolding kernel_entry_def
  by (intro np_exp_unit nonpositive_divide nonpositive_neg_square) simp_all

lemma kernel_entry_zero: "s2 \<noteq> 0 \<Longrightarrow> kernel_entry s2 0 = Fin 1"
  by (simp add: kernel_entry_def to_float64_zero to_float64_one)

lemma kernel_entry_zero_nan: "kernel_entry 0 0 = NaN"
  by (simp add: kernel_entry_def to_float64_zero)

lemma np_equal_kernel_entry: "0 < s2 \<Longrightarrow> np_equal (kernel_entry s2 d) (kernel_entry s2 d)"
  using kernel_entry_unit [of s2 d] by auto

lemma kernel_entry_exact:
  assumes s2: "f64_underflow < s2" "s2 < f64_overflow"
    and d: "d = 0 \<or> (2 * f64_underflow < d\<^sup>2 \<and> d\<^sup>2 < f64_overflow \<and>
              f64_underflow < d\<^sup>2 / (2 * s2))"
  shows "kernel_entry s2 d =
           Fin (if exp (- (d\<^sup>2 / (2 * s2))) \<le> f64_underflow then 0
                else exp (- (d\<^sup>2 / (2 * s2))))"
proof (cases "d = 0")
  case True
  have "s2 \<noteq> 0" using s2 f64_underflow_pos by linarith
  then have "kernel_entry s2 d = Fin 1" using True by (simp add: kernel_entry_zero)
  moreover have "\<not> (1 :: real) \<le> f64_underflow"
    using f64_underflow_lt_one by linarith
  ultimately show ?thesis using True by simp
next
  case False
  with d have d2: "2 * f64_underflow < d\<^sup>2" "d\<^sup>2 < f64_overflow"
    and q: "f64_underflow < d\<^sup>2 / (2 * s2)" by auto
  have s2pos: "0 < s2" using s2 f64_underflow_pos by linarith
  have u: "0 < f64_underflow" by (rule f64_underflow_pos)
  let ?q = "d\<^sup>2 / (2 * s2)"
  have sq: "to_float64 (d\<^sup>2) = Fin (d\<^sup>2)"
    using d2 u by (intro to_float64_in_range) simp_all
  have half: "to_float64 (- (d\<^sup>2 / 2)) = Fin (- (d\<^sup>2 / 2))"
    using d2 u by (intro to_float64_in_range) simp_all
  have qpos: "0 < ?q" using q u by linarith
  have chain: "np_divide (np_divide (np_negative (np_square (Fin d))) 2) s2 = to_float64 (- ?q)"
    using s2pos by (simp add: sq half)
  show ?thesis
  proof (cases "?q < f64_overflow")
    case True
    have "to_float64 (- ?q) = Fin (- ?q)"
    proof (rule to_float64_in_range)
      show "f64_underflow < \<bar>- ?q\<bar>" using q qpos by (simp only: abs_minus_cancel abs_of_pos)
      show "\<bar>- ?q\<bar> < f64_overflow" using True qpos by (simp only: abs_minus_cancel abs_of_pos)
    qed
    then have "kernel_entry s2 d = to_float64 (exp (- ?q))"
      by (simp only: kernel_entry_def chain np_exp.simps)
    also have "\<dots> = Fin (if exp (- ?q) \<le> f64_underflow then 0 else exp (- ?q))"
      using qpos by (intro to_float64_exp) simp
    finally show ?thesis .
  next
    case False
    then have big: "f64_overflow \<le> ?q" by simp
    have "\<not> f64_overflow \<le> - ?q"
      using qpos f64_overflow_gt_one by linarith
    moreover have "- ?q \<le> - f64_overflow" using big by linarith
    ultimately have "to_float64 (- ?q) = NegInf"
      by (simp only: to_float64_def if_True if_False)
    then have "kernel_entry s2 d = Fin 0"
      by (simp only: kernel_entry_def chain np_exp.simps)
    moreover have "exp (- ?q) \<le> f64_underflow"
      using big by (rule exp_neg_overflow)
    ultimately show ?thesis by simp
  qed
qed



lemma kernel_entry_unit_sigma:
  assumes "0 \<le> d" and "1 / 2 ^ 10 \<le> d\<^sup>2" and "d\<^sup>2 \<le> 2 ^ 10"
  shows "kernel_entry 1 d = Fin (exp (- (d\<^sup>2 / 2)))"
proof -
  have s: "f64_underflow < (1 :: real)" "(1 :: real) < f64_overflow"
    using f64_underflow_lt_one f64_overflow_gt_one by simp_all
  have "2 * f64_underflow < d\<^sup>2" "d\<^sup>2 < f64_overflow"
    using moderate_in_range [of "d\<^sup>2"] assms by simp_all
  moreover have "f64_underflow < d\<^sup>2 / (2 * 1)"
    using moderate_in_range [of "d\<^sup>2 / 2"] assms f64_underflow_pos by simp
  ultimately have "d = 0 \<or> (2 * f64_underflow < d\<^sup>2 \<and> d\<^sup>2 < f64_overflow \<and>
      f64_underflow < d\<^sup>2 / (2 * 1))" by blast
  moreover have "\<not> exp (- (d\<^sup>2 / 2)) \<le> f64_underflow"
    using exp_gt_underflow [of "d\<^sup>2 / 2"] assms by simp
  ultimately show ?thesis
    using kernel_entry_exact [OF s, of d] by simp
qed

subsection \<open>The Euclidean distance\<close>



lemma euclidean_commute: "euclidean u v = euclidean v u"
proof -
  have "map (\<lambda>(a, b). (a - b)\<^sup>2) (zip u v) = map (\<lambda>(a, b). (a - b)\<^sup>2) (zip v u)"
    by (subst zip_commute) (simp add: case_prod_unfold power2_commute comp_def)
  then show ?thesis by (simp add: euclidean_def)
qed

lemma euclidean_self: "euclidean u u = 0"
  by (induction u) (simp_all add: euclidean_def)


subsection \<open>The result of \<^verbatim>\<open>rbf_kernel\<close>\<close>

lemma rbf_kernel_Array1:
  "rbf_kernel (Array1 xs) sigma = Inl (ValueError ''XA must be a 2-dimensional array.'')"
  by (simp add: rbf_kernel_def)

lemma rbf_kernel_Array2:
  "py_float_square sigma = Inr s2 \<Longrightarrow>
     rbf_kernel (Array2 D R) sigma =
       Inr (Array2 (length R) (map (\<lambda>u. map (\<lambda>v. kernel_entry s2 (euclidean u v)) R) R))"
  by (simp add: rbf_kernel_def comp_def)

lemma rbf_kernel_in_range:
  "f64_underflow < sigma\<^sup>2 \<Longrightarrow> sigma\<^sup>2 < f64_overflow \<Longrightarrow>
     rbf_kernel (Array2 D R) sigma =
       Inr (Array2 (length R)
         (map (\<lambda>u. map (\<lambda>v. kernel_entry (sigma\<^sup>2) (euclidean u v)) R) R))"
  by (simp add: rbf_kernel_Array2 py_float_square_range)

lemma rbf_kernel_overflow:
  "f64_overflow \<le> sigma\<^sup>2 \<Longrightarrow>
     rbf_kernel (Array2 D R) sigma = Inl (OverflowError ''(34, Numerical result out of range)'')"
  by (simp add: rbf_kernel_def py_float_square_overflow)

lemma rbf_kernel_underflow:
  "sigma\<^sup>2 \<le> f64_underflow \<Longrightarrow>
     rbf_kernel (Array2 D R) sigma =
       Inr (Array2 (length R) (map (\<lambda>u. map (\<lambda>v. kernel_entry 0 (euclidean u v)) R) R))"
  by (simp add: rbf_kernel_Array2 py_float_square_underflow)

subsection \<open>The kernel matrix\<close>




text \<open>
  C3, as the code has it. For every coordinate matrix and every positive bandwidth whose
  square float64 rounds neither to zero nor to an infinity, the kernel matrix is
  symmetric: its entries \<open>(i, j)\<close> and \<open>(j, i)\<close> compare equal. For a bandwidth of \<open>1 / 2 ^ 600\<close>
  the diagonal is \<^verbatim>\<open>nan\<close>, which is not equal to itself.
\<close>

theorem rbf_kernel_symmetric:
  assumes "0 < sigma" and "f64_underflow < sigma\<^sup>2" and "sigma\<^sup>2 < f64_overflow"
  shows "\<exists>K. rbf_kernel (Array2 D R) sigma = Inr (Array2 (length R) K) \<and>
           length K = length R \<and> list_all (\<lambda>r. length r = length R) K \<and>
           (\<forall>i<length R. \<forall>j<length R. np_equal (K ! i ! j) (K ! j ! i))"
proof -
  let ?K = "map (\<lambda>u. map (\<lambda>v. kernel_entry (sigma\<^sup>2) (euclidean u v)) R) R"
  have s2: "0 < sigma\<^sup>2" using assms(2) by (rule range_square_pos)
  have "rbf_kernel (Array2 D R) sigma = Inr (Array2 (length R) ?K)"
    using assms(2,3) by (rule rbf_kernel_in_range)
  moreover have "length ?K = length R" by simp
  moreover have "list_all (\<lambda>r. length r = length R) ?K"
    by (simp add: list_all_iff)
  moreover have "np_equal (?K ! i ! j) (?K ! j ! i)" if "i < length R" "j < length R" for i j
    using that np_equal_kernel_entry [OF s2, of "euclidean (R ! i) (R ! j)"]
    by (simp add: euclidean_commute [of "R ! j" "R ! i"])
  ultimately show ?thesis by blast
qed

theorem rbf_kernel_symmetric_witness:
  "(0 :: real) < 1 \<and> f64_underflow < (1 :: real)\<^sup>2 \<and> (1 :: real)\<^sup>2 < f64_overflow \<and>
   (\<exists>K. rbf_kernel (Array2 1 [[0], [3]]) 1 = Inr (Array2 2 K) \<and> np_equal (K ! 0 ! 1) (K ! 1 ! 0))"
proof -
  have a: "(0 :: real) < 1" by simp
  have b: "f64_underflow < (1 :: real)\<^sup>2" using f64_underflow_lt_one by simp
  have c: "(1 :: real)\<^sup>2 < f64_overflow" using f64_overflow_gt_one by simp
  from rbf_kernel_symmetric [OF a b c, of 1 "[[0], [3]]"] show ?thesis
    using a b c by auto
qed

theorem rbf_kernel_symmetric_counterexample:
  "(0 :: real) < 1 / 2 ^ 600 \<and>
   rbf_kernel (Array2 1 [[5]]) (1 / 2 ^ 600) = Inr (Array2 1 [[NaN]]) \<and>
   \<not> np_equal ([[NaN]] ! 0 ! 0) ([[NaN]] ! 0 ! 0)"
proof -
  have "rbf_kernel (Array2 1 [[5]]) (1 / 2 ^ 600) =
      Inr (Array2 (length [[5 :: real]])
        (map (\<lambda>u. map (\<lambda>v. kernel_entry 0 (euclidean u v)) [[5]]) [[5]]))"
    using pow600_underflow by (rule rbf_kernel_underflow)
  then have "rbf_kernel (Array2 1 [[5]]) (1 / 2 ^ 600) = Inr (Array2 1 [[NaN]])"
    by (simp add: euclidean_self kernel_entry_zero_nan)
  moreover have "(0 :: real) < 1 / 2 ^ 600" by (simp only: zero_less_divide_1_iff zero_less_power zero_less_numeral)
  ultimately show ?thesis by simp
qed

text \<open>
  C4, as the code has it. For every coordinate matrix and every positive bandwidth whose
  square float64 rounds neither to zero nor to an infinity, every diagonal entry of the
  kernel matrix is 1: a point is at distance 0 from itself. For a bandwidth of
  \<open>1 / 2 ^ 600\<close> the square is \<open>0.0\<close> and the diagonal is \<open>0 / 0\<close>, that is \<^verbatim>\<open>nan\<close>.
\<close>

theorem rbf_kernel_diagonal:
  assumes "0 < sigma" and "f64_underflow < sigma\<^sup>2" and "sigma\<^sup>2 < f64_overflow"
  shows "\<exists>K. rbf_kernel (Array2 D R) sigma = Inr (Array2 (length R) K) \<and>
           length K = length R \<and> list_all (\<lambda>r. length r = length R) K \<and>
           (\<forall>i<length R. K ! i ! i = Fin 1)"
proof -
  let ?K = "map (\<lambda>u. map (\<lambda>v. kernel_entry (sigma\<^sup>2) (euclidean u v)) R) R"
  have s2: "sigma\<^sup>2 \<noteq> 0" using range_square_pos [OF assms(2)] by simp
  have "rbf_kernel (Array2 D R) sigma = Inr (Array2 (length R) ?K)"
    using assms(2,3) by (rule rbf_kernel_in_range)
  moreover have "length ?K = length R" by simp
  moreover have "list_all (\<lambda>r. length r = length R) ?K"
    by (simp add: list_all_iff)
  moreover have "?K ! i ! i = Fin 1" if "i < length R" for i
    using that kernel_entry_zero [OF s2] by (simp add: euclidean_self)
  ultimately show ?thesis by blast
qed

theorem rbf_kernel_diagonal_witness:
  "(0 :: real) < 3 \<and> f64_underflow < (3 :: real)\<^sup>2 \<and> (3 :: real)\<^sup>2 < f64_overflow \<and>
   (\<exists>K. rbf_kernel (Array2 2 [[1, 2], [5, 7]]) 3 = Inr (Array2 2 K) \<and> K ! 1 ! 1 = Fin 1)"
proof -
  have a: "(0 :: real) < 3" by simp
  have b: "f64_underflow < (3 :: real)\<^sup>2" by (rule moderate_square_range) simp_all
  have c: "(3 :: real)\<^sup>2 < f64_overflow" by (rule moderate_square_range) simp_all
  from rbf_kernel_diagonal [OF a b c, of 2 "[[1, 2], [5, 7]]"] show ?thesis
    using a b c by auto
qed

theorem rbf_kernel_diagonal_counterexample:
  "(0 :: real) < 1 / 2 ^ 600 \<and>
   rbf_kernel (Array2 2 [[1, 2]]) (1 / 2 ^ 600) = Inr (Array2 1 [[NaN]]) \<and>
   [[NaN]] ! 0 ! 0 \<noteq> Fin 1"
proof -
  have "rbf_kernel (Array2 2 [[1, 2]]) (1 / 2 ^ 600) =
      Inr (Array2 (length [[1, 2 :: real]])
        (map (\<lambda>u. map (\<lambda>v. kernel_entry 0 (euclidean u v)) [[1, 2]]) [[1, 2]]))"
    using pow600_underflow by (rule rbf_kernel_underflow)
  then have "rbf_kernel (Array2 2 [[1, 2]]) (1 / 2 ^ 600) = Inr (Array2 1 [[NaN]])"
    by (simp add: euclidean_self kernel_entry_zero_nan)
  moreover have "(0 :: real) < 1 / 2 ^ 600" by (simp only: zero_less_divide_1_iff zero_less_power zero_less_numeral)
  ultimately show ?thesis by simp
qed




text \<open>
  C6. The example of the docstring: for the four corners of the unit square and bandwidth 1
  the kernel matrix has \<open>exp (- 1)\<close> at \<open>(0, 1)\<close> and \<open>exp (- 1 / 2)\<close> at \<open>(0, 2)\<close>, and these
  two numbers are 0.367879 and 0.606531 to six decimal places.
\<close>

theorem rbf_kernel_example:
  "rbf_kernel (Array2 2 [[0, 1], [1, 0], [0, 0], [1, 1]]) 1 =
     Inr (Array2 4
       [[Fin 1, Fin (exp (- 1)), Fin (exp (- (1 / 2))), Fin (exp (- (1 / 2)))],
        [Fin (exp (- 1)), Fin 1, Fin (exp (- (1 / 2))), Fin (exp (- (1 / 2)))],
        [Fin (exp (- (1 / 2))), Fin (exp (- (1 / 2))), Fin 1, Fin (exp (- 1))],
        [Fin (exp (- (1 / 2))), Fin (exp (- (1 / 2))), Fin (exp (- 1)), Fin 1]]) \<and>
   \<bar>exp (- 1 :: real) - 0.367879\<bar> < 5 / 10 ^ 7 \<and>
   \<bar>exp (- (1 / 2) :: real) - 0.606531\<bar> < 5 / 10 ^ 7"
proof -
  have sq: "py_float_square 1 = Inr 1"
    using py_float_square_range [of 1] f64_underflow_lt_one f64_overflow_gt_one by simp
  have k0: "kernel_entry 1 0 = Fin 1" by (simp add: kernel_entry_zero)
  have k1: "kernel_entry 1 1 = Fin (exp (- (1 / 2)))"
    using kernel_entry_unit_sigma [of 1] by simp
  have k2: "kernel_entry 1 (sqrt 2) = Fin (exp (- 1))"
    using kernel_entry_unit_sigma [of "sqrt 2"] by simp
  have "rbf_kernel (Array2 2 [[0, 1], [1, 0], [0, 0], [1, 1]]) 1 =
     Inr (Array2 4
       [[Fin 1, Fin (exp (- 1)), Fin (exp (- (1 / 2))), Fin (exp (- (1 / 2)))],
        [Fin (exp (- 1)), Fin 1, Fin (exp (- (1 / 2))), Fin (exp (- (1 / 2)))],
        [Fin (exp (- (1 / 2))), Fin (exp (- (1 / 2))), Fin 1, Fin (exp (- 1))],
        [Fin (exp (- (1 / 2))), Fin (exp (- (1 / 2))), Fin (exp (- 1)), Fin 1]])"
    by (simp add: rbf_kernel_Array2 [OF sq] euclidean_def k0 k1 k2)
  moreover have "\<bar>exp (- 1 :: real) - 0.367879\<bar> < 5 / 10 ^ 7"
    using exp_minus_one_approx by simp
  moreover have "\<bar>exp (- (1 / 2) :: real) - 0.606531\<bar> < 5 / 10 ^ 7"
    using exp_minus_half_approx by simp
  ultimately show ?thesis by blast
qed

text \<open>
  C9, as the code has it. The sign of the bandwidth is irrelevant, since only its square
  is used: for every array \<open>R\<close> and every \<open>sigma\<close>, \<^verbatim>\<open>rbf_kernel\<close> has the same outcome, a
  matrix or an exception, for \<open>- sigma\<close>, for \<open>sigma\<close> and for its absolute value. When the
  square of \<open>sigma\<close> is rounded neither to zero nor to an infinity, that outcome is, for a
  coordinate matrix of \<open>N\<close> points, a well-formed kernel: an \<open>N \<times> N\<close> matrix with 1 on the
  diagonal, symmetric, with entries in \<open>[0, 1]\<close>. A negative bandwidth of magnitude
  \<open>2 ^ 600\<close> does fail, with \<^verbatim>\<open>OverflowError\<close>, as the positive one does.
\<close>

theorem rbf_kernel_sign:
  "rbf_kernel R (- sigma) = rbf_kernel R sigma \<and>
   rbf_kernel R \<bar>sigma\<bar> = rbf_kernel R sigma \<and>
   (f64_underflow < sigma\<^sup>2 \<and> sigma\<^sup>2 < f64_overflow \<longrightarrow>
      (\<exists>K. rbf_kernel (Array2 D rows) (- sigma) = Inr (Array2 (length rows) K) \<and>
           rbf_kernel (Array2 D rows) \<bar>sigma\<bar> = Inr (Array2 (length rows) K) \<and>
           length K = length rows \<and> list_all (\<lambda>r. length r = length rows) K \<and>
           (\<forall>i<length rows. K ! i ! i = Fin 1) \<and>
           (\<forall>i<length rows. \<forall>j<length rows.
              np_equal (K ! i ! j) (K ! j ! i) \<and>
              (\<exists>x. K ! i ! j = Fin x \<and> 0 \<le> x \<and> x \<le> 1))))"
proof -
  have eq1: "rbf_kernel R (- sigma) = rbf_kernel R sigma" for R
    by (simp add: rbf_kernel_def py_float_square_minus cong: sum.case_cong)
  have eq2: "rbf_kernel R \<bar>sigma\<bar> = rbf_kernel R sigma" for R
    by (simp add: rbf_kernel_def py_float_square_abs cong: sum.case_cong)
  have wf: "\<exists>K. rbf_kernel (Array2 D rows) (- sigma) = Inr (Array2 (length rows) K) \<and>
           rbf_kernel (Array2 D rows) \<bar>sigma\<bar> = Inr (Array2 (length rows) K) \<and>
           length K = length rows \<and> list_all (\<lambda>r. length r = length rows) K \<and>
           (\<forall>i<length rows. K ! i ! i = Fin 1) \<and>
           (\<forall>i<length rows. \<forall>j<length rows.
              np_equal (K ! i ! j) (K ! j ! i) \<and>
              (\<exists>x. K ! i ! j = Fin x \<and> 0 \<le> x \<and> x \<le> 1))"
    if r: "f64_underflow < sigma\<^sup>2" "sigma\<^sup>2 < f64_overflow"
  proof -
    let ?K = "map (\<lambda>u. map (\<lambda>v. kernel_entry (sigma\<^sup>2) (euclidean u v)) rows) rows"
    have s2: "0 < sigma\<^sup>2" using r(1) by (rule range_square_pos)
    have ret: "rbf_kernel (Array2 D rows) sigma = Inr (Array2 (length rows) ?K)"
      using r by (rule rbf_kernel_in_range)
    have "length ?K = length rows" by simp
    moreover have "list_all (\<lambda>r. length r = length rows) ?K"
      by (simp add: list_all_iff)
    moreover have "?K ! i ! i = Fin 1" if "i < length rows" for i
      using that s2 by (simp add: euclidean_self kernel_entry_zero)
    moreover have "np_equal (?K ! i ! j) (?K ! j ! i)"
      if "i < length rows" "j < length rows" for i j
      using that np_equal_kernel_entry [OF s2, of "euclidean (rows ! i) (rows ! j)"]
      by (simp add: euclidean_commute [of "rows ! j" "rows ! i"])
    moreover have "\<exists>x. ?K ! i ! j = Fin x \<and> 0 \<le> x \<and> x \<le> 1"
      if "i < length rows" "j < length rows" for i j
      using that kernel_entry_unit [OF s2] by simp
    ultimately show ?thesis using ret eq1 eq2 by (intro exI [of _ ?K]) (simp only: simp_thms, blast)
  qed
  show ?thesis using eq1 eq2 wf by blast
qed

theorem rbf_kernel_sign_witness:
  "f64_underflow < (3 :: real)\<^sup>2 \<and> (3 :: real)\<^sup>2 < f64_overflow \<and>
   rbf_kernel (Array2 1 [[0], [1]]) (- 3) = rbf_kernel (Array2 1 [[0], [1]]) 3 \<and>
   (\<exists>K. rbf_kernel (Array2 1 [[0], [1]]) (- 3) = Inr (Array2 2 K) \<and>
        rbf_kernel (Array2 1 [[0], [1]]) \<bar>3\<bar> = Inr (Array2 2 K) \<and>
        length K = 2 \<and> K ! 0 ! 0 = Fin 1 \<and> np_equal (K ! 0 ! 1) (K ! 1 ! 0))"
proof -
  have b: "f64_underflow < (3 :: real)\<^sup>2" by (rule moderate_square_range) simp_all
  have c: "(3 :: real)\<^sup>2 < f64_overflow" by (rule moderate_square_range) simp_all
  from rbf_kernel_sign [of "Array2 1 [[0], [1]]" 3 1 "[[0], [1]]"] b c show ?thesis
    by auto
qed

theorem rbf_kernel_sign_counterexample:
  "- ((2 :: real) ^ 600) \<noteq> 0 \<and>
   rbf_kernel (Array2 1 [[0], [2]]) (- (2 ^ 600)) =
     Inl (OverflowError ''(34, Numerical result out of range)'') \<and>
   \<not> (\<exists>K. rbf_kernel (Array2 1 [[0], [2]]) (- (2 ^ 600)) = Inr K)"
proof -
  have "f64_overflow \<le> (- ((2 :: real) ^ 600))\<^sup>2"
    using pow600_overflow by (simp only: power2_minus)
  then have "rbf_kernel (Array2 1 [[0], [2]]) (- (2 ^ 600)) =
      Inl (OverflowError ''(34, Numerical result out of range)'')"
    by (rule rbf_kernel_overflow)
  moreover have "- ((2 :: real) ^ 600) \<noteq> 0"
    by (simp only: neg_equal_0_iff_equal power_eq_0_iff) simp
  ultimately show ?thesis by simp
qed

text \<open>
  C10, as the code has it. For an empty coordinate matrix (no points, shape \<open>(0, D)\<close>) and
  any bandwidth whose square is below \<open>2 ^ 1024\<close>, \<^verbatim>\<open>rbf_kernel\<close> does not raise: it returns
  the empty kernel matrix of shape \<open>(0, 0)\<close>. \<^verbatim>\<open>sigma ** 2\<close> is evaluated also when there are
  no points, so a bandwidth from \<open>2 ^ 512\<close> on raises \<^verbatim>\<open>OverflowError\<close>.
\<close>

theorem rbf_kernel_empty:
  "sigma\<^sup>2 < f64_overflow \<Longrightarrow> rbf_kernel (Array2 D []) sigma = Inr (Array2 0 [])"
  using py_float_square_no_overflow [of sigma] by (auto simp: rbf_kernel_def)

theorem rbf_kernel_empty_witness:
  "(5 :: real)\<^sup>2 < f64_overflow \<and> rbf_kernel (Array2 3 []) 5 = Inr (Array2 0 [])"
proof -
  have c: "(5 :: real)\<^sup>2 < f64_overflow" using f64_overflow_big by simp
  from rbf_kernel_empty [OF c, of 3] show ?thesis using c by simp
qed

theorem rbf_kernel_empty_counterexample:
  "(0 :: real) < 2 ^ 600 \<and>
   rbf_kernel (Array2 3 []) (2 ^ 600) =
     Inl (OverflowError ''(34, Numerical result out of range)'') \<and>
   rbf_kernel (Array2 3 []) (2 ^ 600) \<noteq> Inr (Array2 0 [])"
proof -
  have "rbf_kernel (Array2 3 []) (2 ^ 600) =
      Inl (OverflowError ''(34, Numerical result out of range)'')"
    using pow600_overflow by (rule rbf_kernel_overflow)
  moreover have "(0 :: real) < 2 ^ 600" by (rule zero_less_power) simp
  ultimately show ?thesis by simp
qed

section \<open>Properties of \<^verbatim>\<open>sample\<close>\<close>

lemma example_batch_shape: "batch_shape_spec example_rescale example_generate"
  by (auto simp: batch_shape_spec_def example_rescale_def example_generate_def list_all_iff
      split: npfloat.splits if_splits)

lemma example_counts: "counts_spec example_generate"
  by (auto simp: counts_spec_def example_generate_def list_all_iff split: if_splits)

text \<open>
  C2. For every kernel matrix \<open>K\<close> with \<open>N\<close> points, every mean count and every requested
  number \<open>n\<close> of samples, a batch that \<^verbatim>\<open>sample\<close> returns has exactly \<open>n\<close> samples, each of
  length \<open>N\<close>, provided the two library routines behave as the specification describes
  them.
\<close>

theorem sample_batch_shape:
  assumes "batch_shape_spec rescale generate" and "0 \<le> n_samples"
    and "sample rescale generate K n_mean n_samples g = (Inr batch, g')"
  shows "length batch = nat n_samples \<and> (\<forall>s\<in>set batch. length s = shape0 K)"
proof -
  from assms(3) obtain ls O' where r: "rescale K n_mean = Inr (ls, O')"
    and gen: "generate ls O' n_samples g = (Inr batch, g')"
    by (auto simp: sample_def np_array_tolist_def split: sum.splits prod.splits)
  from assms(1) r assms(2) gen
  have "length batch = nat n_samples \<and> list_all (\<lambda>s. length s = shape0 K) batch"
    unfolding batch_shape_spec_def by blast
  then show ?thesis by (simp add: list_all_iff)
qed

theorem sample_batch_shape_witness:
  "batch_shape_spec example_rescale example_generate \<and> (0 :: int) \<le> 3 \<and>
   sample example_rescale example_generate (Array2 2 [[Fin 1, Fin 0], [Fin 0, Fin 1]]) (Fin 1) 3 5 =
     (Inr [[5, 5], [5, 5], [5, 5]], 6) \<and>
   length [[5, 5], [5, 5], [5 :: int, 5]] = nat 3 \<and>
   list_all (\<lambda>s. length s = shape0 (Array2 2 [[Fin 1, Fin 0], [Fin 0, Fin 1]]))
     [[5, 5], [5, 5], [5 :: int, 5]]"
proof -
  have run: "sample example_rescale example_generate
      (Array2 2 [[Fin 1, Fin 0], [Fin 0, Fin 1]]) (Fin 1) 3 5 = (Inr [[5, 5], [5, 5], [5, 5]], 6)"
    by (simp add: sample_def example_rescale_def example_generate_def np_array_tolist_def
        eval_nat_numeral)
  have pos: "(0 :: int) \<le> 3" by simp
  from sample_batch_shape [OF example_batch_shape pos run]
  show ?thesis using run example_batch_shape by (simp add: list_all_iff)
qed

text \<open>
  C7. Every element of every sample of a batch that \<^verbatim>\<open>sample\<close> returns is a non-negative
  integer, provided the generator returns such counts.
\<close>

theorem sample_counts_nonneg:
  assumes "counts_spec generate"
    and "sample rescale generate K n_mean n_samples g = (Inr batch, g')"
  shows "\<forall>s\<in>set batch. \<forall>x\<in>set s. 0 \<le> x"
proof -
  from assms(2) obtain ls O' where "generate ls O' n_samples g = (Inr batch, g')"
    by (auto simp: sample_def np_array_tolist_def split: sum.splits prod.splits)
  with assms(1) have "list_all (list_all (\<lambda>x. 0 \<le> x)) batch"
    unfolding counts_spec_def by blast
  then show ?thesis by (simp add: list_all_iff)
qed

theorem sample_counts_nonneg_witness:
  "counts_spec example_generate \<and>
   sample example_rescale example_generate (Array2 1 [[Fin 1]]) (Fin 2) 2 7 = (Inr [[7], [7]], 8) \<and>
   list_all (list_all (\<lambda>x. 0 \<le> x)) [[7], [7 :: int]]"
proof -
  have run: "sample example_rescale example_generate (Array2 1 [[Fin 1]]) (Fin 2) 2 7 =
      (Inr [[7], [7]], 8)"
    by (simp add: sample_def example_rescale_def example_generate_def np_array_tolist_def
        eval_nat_numeral)
  from sample_counts_nonneg [OF example_counts run]
  show ?thesis using run example_counts by (simp add: list_all_iff)
qed

text \<open>
  C8. \<^verbatim>\<open>sample\<close> validates nothing itself. Whatever the two library routines are and
  whatever the arguments: an exception of the rescaling routine is the result, the random
  state untouched; after a successful rescaling an exception of the generator is the
  result; when neither raises, \<^verbatim>\<open>sample\<close> returns the generator's samples; and every
  exception that leaves \<^verbatim>\<open>sample\<close> is one that one of the two routines raised on the
  arguments \<^verbatim>\<open>sample\<close> passed to it.
\<close>

theorem sample_propagates:
  "(\<forall>e. rescale K n_mean = Inl e \<longrightarrow> sample rescale generate K n_mean n g = (Inl e, g)) \<and>
   (\<forall>ls O' e g'. rescale K n_mean = Inr (ls, O') \<and> generate ls O' n g = (Inl e, g') \<longrightarrow>
      sample rescale generate K n_mean n g = (Inl e, g')) \<and>
   (\<forall>ls O' raw g'. rescale K n_mean = Inr (ls, O') \<and> generate ls O' n g = (Inr raw, g') \<longrightarrow>
      sample rescale generate K n_mean n g = (Inr raw, g')) \<and>
   (\<forall>e g'. sample rescale generate K n_mean n g = (Inl e, g') \<longrightarrow>
      rescale K n_mean = Inl e \<and> g' = g \<or>
      (\<exists>ls O'. rescale K n_mean = Inr (ls, O') \<and> generate ls O' n g = (Inl e, g')))"
  by (auto simp: sample_def np_array_tolist_def split: sum.splits prod.splits)

theorem sample_propagates_witness:
  "sample example_rescale example_generate (Array2 0 []) NaN 1 0 =
     (Inl (ValueError ''mean is not finite''), 0) \<and>
   sample example_rescale example_generate (Array2 1 [[Fin 1]]) (Fin 1) (- 1) 0 =
     (Inl (ValueError ''negative number of samples''), 0) \<and>
   sample example_rescale example_generate (Array2 1 [[Fin 1]]) (Fin 1) 1 0 = (Inr [[0]], 1)"
proof -
  have a: "example_rescale (Array2 0 []) NaN = Inl (ValueError ''mean is not finite'')"
    by (simp add: example_rescale_def)
  have b: "example_rescale (Array2 1 [[Fin 1]]) (Fin 1) = Inr (1, 1)"
    by (simp add: example_rescale_def)
  have c: "example_generate 1 1 (- 1) 0 = (Inl (ValueError ''negative number of samples''), 0)"
    by (simp add: example_generate_def)
  have d: "example_generate 1 1 1 0 = (Inr [[0]], 1)"
    by (simp add: example_generate_def)
  from sample_propagates [of example_rescale "Array2 0 []" NaN example_generate 1 0] a
  have 1: "sample example_rescale example_generate (Array2 0 []) NaN 1 0 =
     (Inl (ValueError ''mean is not finite''), 0)" by blast
  from sample_propagates [of example_rescale "Array2 1 [[Fin 1]]" "Fin 1" example_generate "- 1" 0] b c
  have 2: "sample example_rescale example_generate (Array2 1 [[Fin 1]]) (Fin 1) (- 1) 0 =
     (Inl (ValueError ''negative number of samples''), 0)" by blast
  from sample_propagates [of example_rescale "Array2 1 [[Fin 1]]" "Fin 1" example_generate 1 0] b d
  have 3: "sample example_rescale example_generate (Array2 1 [[Fin 1]]) (Fin 1) 1 0 = (Inr [[0]], 1)"
    by blast
  from 1 2 3 show ?thesis by blast
qed

end
